theory Spec2Isabelle
  imports Complex_Main
begin

section \<open>thinFilmCalc: the Thin_film class\<close>

subsection \<open>Values of type double\<close>

text \<open>
  A C++ \<open>double\<close> is modelled as a real number or the value NaN. Arithmetic on numbers
  is exact: rounding to 53 bits, overflow to infinity and the sign of zero are not
  modelled. The operations below are the ones \<open>thinFilmCalc.cpp\<close> applies to doubles:
  \<open>*\<close>, \<open>-\<close>, \<open>/ 2.0\<close>, \<open>sqrt\<close> and \<open><\<close>. NaN propagates through arithmetic,
  every comparison with NaN is false, and \<open>sqrt\<close> of a negative number is NaN.
\<close>

datatype double = Val real | NaN

fun dmul :: "double \<Rightarrow> double \<Rightarrow> double" where
  "dmul (Val a) (Val b) = Val (a * b)"
| "dmul _ _ = NaN"

fun dsub :: "double \<Rightarrow> double \<Rightarrow> double" where
  "dsub (Val a) (Val b) = Val (a - b)"
| "dsub _ _ = NaN"

fun ddiv2 :: "double \<Rightarrow> double" where
  "ddiv2 (Val a) = Val (a / 2)"
| "ddiv2 NaN = NaN"

fun dsqrt :: "double \<Rightarrow> double" where
  "dsqrt (Val a) = (if a < 0 then NaN else Val (sqrt a))"
| "dsqrt NaN = NaN"

fun dless :: "double \<Rightarrow> double \<Rightarrow> bool" where
  "dless (Val a) (Val b) = (a < b)"
| "dless _ _ = False"

subsection \<open>The class\<close>

text \<open>
  The four instance variables of \<open>class Thin_film\<close>. The members that the program
  never calls (the two-argument constructor, \<open>getspectralRange\<close>, \<open>readFilm\<close>) and the
  function \<open>readFile\<close> are left out.
\<close>

record Thin_film =
  mat :: string
  spectralRange :: double
  index :: double
  numberOfMaxima :: double

text \<open>\<open>Thin_film::Thin_film()\<close>: the string member is default-constructed (empty).\<close>

definition Thin_film_default :: Thin_film where
  "Thin_film_default =
     \<lparr>mat = [], spectralRange = Val 0, index = Val 0, numberOfMaxima = Val 0\<rparr>"

definition getMat :: "Thin_film \<Rightarrow> string" where
  "getMat f = mat f"

definition getIndex :: "Thin_film \<Rightarrow> double" where
  "getIndex f = index f"

text \<open>
  \<open>return (numberOfMaxima * spectralRange) / 2.0 * sqrt(double ((index * index) - 1));\<close>
\<close>

definition getThickness :: "Thin_film \<Rightarrow> double" where
  "getThickness f =
     dmul (ddiv2 (dmul (numberOfMaxima f) (spectralRange f)))
          (dsqrt (dsub (dmul (index f) (index f)) (Val 1)))"

definition setMat :: "string \<Rightarrow> Thin_film \<Rightarrow> Thin_film" where
  "setMat newMat f = f\<lparr>mat := newMat\<rparr>"

definition setspectralRange :: "double \<Rightarrow> Thin_film \<Rightarrow> Thin_film" where
  "setspectralRange newSpectralRange f =
     (if dless newSpectralRange (Val 0) then f\<lparr>spectralRange := Val 0\<rparr>
      else f\<lparr>spectralRange := newSpectralRange\<rparr>)"

definition setIndex :: "double \<Rightarrow> Thin_film \<Rightarrow> Thin_film" where
  "setIndex newIndex f =
     (if dless newIndex (Val 0) then f\<lparr>index := Val 0\<rparr>
      else f\<lparr>index := newIndex\<rparr>)"

definition setnumberOfMaxima :: "double \<Rightarrow> Thin_film \<Rightarrow> Thin_film" where
  "setnumberOfMaxima newMaxima f =
     (if dless newMaxima (Val 0) then f\<lparr>numberOfMaxima := Val 0\<rparr>
      else f\<lparr>numberOfMaxima := newMaxima\<rparr>)"

section \<open>The C++ input streams\<close>

subsection \<open>Characters and decimal digits\<close>

text \<open>White space in the "C" locale, as \<open>std::ws\<close> and the formatted extractors skip it.\<close>

definition isspace :: "char \<Rightarrow> bool" where
  "isspace c = (c \<in> set [CHR '' '', CHR 0x09, CHR 0x0A, CHR 0x0B, CHR 0x0C, CHR 0x0D])"

definition isdigit :: "char \<Rightarrow> bool" where
  "isdigit c = (c \<in> set ''0123456789'')"

definition digit_val :: "char \<Rightarrow> nat" where
  "digit_val c = of_char c - 48"

definition digits_val :: "string \<Rightarrow> nat" where
  "digits_val ds = foldl (\<lambda>n c. 10 * n + digit_val c) 0 ds"

subsection \<open>Stream state\<close>

text \<open>
  An input stream (\<open>cin\<close>, or an \<open>ifstream\<close> on an open file) is the characters not
  yet extracted together with the state bits \<open>eofbit\<close> and \<open>failbit\<close>. Nothing in the
  program clears a bit once it is set.
\<close>

record istream =
  buf :: string
  eofbit :: bool
  failbit :: bool

definition open_istream :: "string \<Rightarrow> istream" where
  "open_istream s = \<lparr>buf = s, eofbit = False, failbit = False\<rparr>"

definition good :: "istream \<Rightarrow> bool" where
  "good s = (\<not> eofbit s \<and> \<not> failbit s)"

text \<open>
  The sentry of an unformatted input function (\<open>noskipws = true\<close>): a stream that is not
  good gets \<open>failbit\<close> and the function does nothing.
\<close>

definition sentry_noskip :: "istream \<Rightarrow> istream \<times> bool" where
  "sentry_noskip s = (if good s then (s, True) else (s\<lparr>failbit := True\<rparr>, False))"

text \<open>
  The sentry of a formatted extractor: it skips white space first, and running into the
  end of the input there sets \<open>eofbit\<close> and \<open>failbit\<close>.
\<close>

definition sentry_skipws :: "istream \<Rightarrow> istream \<times> bool" where
  "sentry_skipws s =
     (if good s then
        (case dropWhile isspace (buf s) of
           [] \<Rightarrow> (s\<lparr>buf := [], eofbit := True, failbit := True\<rparr>, False)
         | c # r \<Rightarrow> (s\<lparr>buf := c # r\<rparr>, True))
      else (s\<lparr>failbit := True\<rparr>, False))"

text \<open>\<open>is >> ws\<close>: skips white space; reaching the end of the input sets \<open>eofbit\<close> only.\<close>

definition ws :: "istream \<Rightarrow> istream" where
  "ws s =
     (case sentry_noskip s of
        (s1, False) \<Rightarrow> s1
      | (s1, True) \<Rightarrow>
          (case dropWhile isspace (buf s1) of
             [] \<Rightarrow> s1\<lparr>buf := [], eofbit := True\<rparr>
           | c # r \<Rightarrow> s1\<lparr>buf := c # r\<rparr>))"

text \<open>
  \<open>getline(is, str)\<close>: the characters up to the next newline, which is extracted and
  dropped. The end of the input sets \<open>eofbit\<close>; extracting nothing at all sets \<open>failbit\<close>.
  The result is \<open>None\<close> when the string was left untouched (the sentry failed).
\<close>

definition getline :: "istream \<Rightarrow> istream \<times> string option" where
  "getline s =
     (case sentry_noskip s of
        (s1, False) \<Rightarrow> (s1, None)
      | (s1, True) \<Rightarrow>
          (let l = takeWhile (\<lambda>c. c \<noteq> CHR 0x0A) (buf s1) in
           case dropWhile (\<lambda>c. c \<noteq> CHR 0x0A) (buf s1) of
             [] \<Rightarrow> (s1\<lparr>buf := [], eofbit := True, failbit := (l = [])\<rparr>, Some l)
           | c # r \<Rightarrow> (s1\<lparr>buf := r\<rparr>, Some l)))"

text \<open>
  \<open>is >> str\<close> for a \<open>std::string\<close>: after the sentry, the characters up to the next
  white space.
\<close>

definition extract_string :: "istream \<Rightarrow> istream \<times> string option" where
  "extract_string s =
     (case sentry_skipws s of
        (s1, False) \<Rightarrow> (s1, None)
      | (s1, True) \<Rightarrow>
          (let t = takeWhile (\<lambda>c. \<not> isspace c) (buf s1);
               r = dropWhile (\<lambda>c. \<not> isspace c) (buf s1)
           in (s1\<lparr>buf := r, eofbit := (r = []), failbit := (t = [])\<rparr>, Some t)))"

subsection \<open>Numbers\<close>

text \<open>An optional sign: \<open>True\<close> for \<open>-\<close>.\<close>

definition scan_sign :: "string \<Rightarrow> bool \<times> string" where
  "scan_sign s =
     (case s of
        [] \<Rightarrow> (False, [])
      | c # r \<Rightarrow>
          if c = CHR ''-'' then (True, r)
          else if c = CHR ''+'' then (False, r)
          else (False, s))"

text \<open>
  The exponent part of a floating-point field: \<open>e\<close> or \<open>E\<close>, accepted only after a
  digit of the mantissa, an optional sign, digits. The result is whether an exponent
  marker was taken, its sign, its digits, and the rest of the input.
\<close>

definition scan_exponent :: "bool \<Rightarrow> string \<Rightarrow> bool \<times> bool \<times> string \<times> string" where
  "scan_exponent found s =
     (case s of
        [] \<Rightarrow> (False, False, [], [])
      | c # r \<Rightarrow>
          if (c = CHR ''e'' \<or> c = CHR ''E'') \<and> found then
            (case scan_sign r of
               (eneg, r1) \<Rightarrow> (True, eneg, takeWhile isdigit r1, dropWhile isdigit r1))
          else (False, False, [], s))"

text \<open>
  The mantissa of a floating-point field: digits, and after a decimal point more
  digits. The result is the integer digits, the fraction digits and the rest.
\<close>

definition scan_mantissa :: "string \<Rightarrow> string \<times> string \<times> string" where
  "scan_mantissa s =
     (case dropWhile isdigit s of
        [] \<Rightarrow> (takeWhile isdigit s, [], [])
      | c # r \<Rightarrow>
          if c = CHR ''.'' then (takeWhile isdigit s, takeWhile isdigit r, dropWhile isdigit r)
          else (takeWhile isdigit s, [], c # r))"

definition found_mantissa :: "string \<Rightarrow> string \<Rightarrow> bool" where
  "found_mantissa ip fp = (ip \<noteq> [] \<or> fp \<noteq> [])"

definition float_value :: "bool \<Rightarrow> string \<Rightarrow> string \<Rightarrow> bool \<Rightarrow> string \<Rightarrow> real" where
  "float_value neg ip fp eneg ep =
     (let m = real (digits_val ip) + real (digits_val fp) / 10 ^ length fp;
          v = (if eneg then m / 10 ^ digits_val ep else m * 10 ^ digits_val ep)
      in if neg then - v else v)"

text \<open>
  What \<open>num_get\<close> accumulates for a \<open>double\<close> and what \<open>strtod\<close> makes of it: sign,
  digits, at most one decimal point, exponent. The field is a number when the mantissa
  has a digit and an exponent marker is followed by a digit; the value is exact.
\<close>

definition extract_float :: "string \<Rightarrow> real option \<times> string" where
  "extract_float s =
     (case scan_sign s of
        (neg, s1) \<Rightarrow>
          (case scan_mantissa s1 of
             (ip, fp, s3) \<Rightarrow>
               (case scan_exponent (found_mantissa ip fp) s3 of
                  (has_exp, eneg, ep, s4) \<Rightarrow>
                    (if found_mantissa ip fp \<and> (if has_exp then ep \<noteq> [] else True)
                     then Some (float_value neg ip fp eneg ep)
                     else None,
                     s4))))"

text \<open>
  \<open>is >> x\<close> for a \<open>double\<close>. A field that is not a number stores 0 and sets
  \<open>failbit\<close>; a field that runs to the end of the input sets \<open>eofbit\<close>. The result is
  \<open>None\<close> when the variable was left untouched (the sentry failed).
\<close>

definition extract_double :: "istream \<Rightarrow> istream \<times> double option" where
  "extract_double s =
     (case sentry_skipws s of
        (s1, False) \<Rightarrow> (s1, None)
      | (s1, True) \<Rightarrow>
          (case extract_float (buf s1) of
             (r, rest) \<Rightarrow>
               (s1\<lparr>buf := rest, eofbit := (rest = []), failbit := (r = None)\<rparr>,
                Some (case r of None \<Rightarrow> Val 0 | Some x \<Rightarrow> Val x))))"

text \<open>
  \<open>is >> n\<close> for a 32-bit \<open>int\<close>: sign and decimal digits. No digit stores 0 and sets
  \<open>failbit\<close>; a value out of range stores the nearest bound and sets \<open>failbit\<close>.
\<close>

definition INT_MAX :: int where
  "INT_MAX = 2147483647"

definition INT_MIN :: int where
  "INT_MIN = - 2147483648"

definition extract_int :: "istream \<Rightarrow> istream \<times> int option" where
  "extract_int s =
     (case sentry_skipws s of
        (s1, False) \<Rightarrow> (s1, None)
      | (s1, True) \<Rightarrow>
          (case scan_sign (buf s1) of
             (neg, s2) \<Rightarrow>
               (let ds = takeWhile isdigit s2;
                    rest = dropWhile isdigit s2;
                    n = (if neg then - int (digits_val ds) else int (digits_val ds));
                    bad = (ds = [] \<or> n < INT_MIN \<or> INT_MAX < n)
                in (s1\<lparr>buf := rest, eofbit := (rest = []), failbit := bad\<rparr>,
                    Some (if ds = [] then 0
                          else if n < INT_MIN then INT_MIN
                          else if INT_MAX < n then INT_MAX
                          else n)))))"

section \<open>Output: formatting, files and the console\<close>

subsection \<open>Decimal rendering\<close>

fun show_nat :: "nat \<Rightarrow> string" where
  "show_nat n =
     (if n < 10 then [''0123456789'' ! n]
      else show_nat (n div 10) @ [''0123456789'' ! (n mod 10)])"

declare show_nat.simps [simp del]

text \<open>The decimal exponent of a positive number: \<open>10 ^ e \<le> a < 10 ^ (e + 1)\<close>.\<close>

definition dec_exp :: "real \<Rightarrow> int" where
  "dec_exp a =
     (if 1 \<le> a then int (length (show_nat (nat \<lfloor>a\<rfloor>))) - 1
      else (let j = length (show_nat (nat \<lfloor>1 / a\<rfloor>)) - 1
            in if a * 10 ^ j = 1 then - int j else - int j - 1))"

definition scale10 :: "real \<Rightarrow> int \<Rightarrow> real" where
  "scale10 a k = (if 0 \<le> k then a * 10 ^ nat k else a / 10 ^ nat (- k))"

definition strip_zeros :: "string \<Rightarrow> string" where
  "strip_zeros ds = rev (dropWhile (\<lambda>c. c = CHR ''0'') (rev ds))"

definition with_point :: "string \<Rightarrow> string \<Rightarrow> string" where
  "with_point ip fr = ip @ (if fr = [] then [] else CHR ''.'' # fr)"

text \<open>
  \<open>os << x\<close> for a \<open>double\<close> on a stream in its default state: \<open>printf\<close>'s \<open>%g\<close> with
  precision 6, that is six significant digits, trailing zeros removed, scientific
  notation when the decimal exponent is below -4 or at least 6. The number is rounded
  from its exact value (a tie goes up); the text of NaN is taken to be \<open>nan\<close>.
\<close>

definition fmt_g :: "double \<Rightarrow> string" where
  "fmt_g d =
     (case d of
        NaN \<Rightarrow> ''nan''
      | Val x \<Rightarrow>
          if x = 0 then ''0''
          else
            (let a = \<bar>x\<bar>;
                 e0 = dec_exp a;
                 n0 = nat (round (scale10 a (5 - e0)));
                 n = (if 1000000 \<le> n0 then n0 div 10 else n0);
                 e = (if 1000000 \<le> n0 then e0 + 1 else e0);
                 ds = show_nat n;
                 body =
                   (if e < - 4 \<or> 6 \<le> e then
                      with_point [hd ds] (strip_zeros (tl ds)) @ ''e''
                        @ (if e < 0 then ''-'' else ''+'')
                        @ (if \<bar>e\<bar> < 10 then ''0'' else []) @ show_nat (nat \<bar>e\<bar>)
                    else if 0 \<le> e then
                      with_point (take (nat e + 1) ds) (strip_zeros (drop (nat e + 1) ds))
                    else
                      with_point ''0''
                        (strip_zeros (replicate (nat (- e - 1)) (CHR ''0'') @ ds)))
             in (if x < 0 then ''-'' else []) @ body))"

text \<open>
  \<open>os << x\<close> after \<open>setf(ios::fixed)\<close> and \<open>setprecision(p)\<close>: \<open>printf\<close>'s \<open>%.pf\<close>.
\<close>

definition fmt_fixed :: "nat \<Rightarrow> double \<Rightarrow> string" where
  "fmt_fixed p d =
     (case d of
        NaN \<Rightarrow> ''nan''
      | Val x \<Rightarrow>
          (let n = nat (round (\<bar>x\<bar> * 10 ^ p));
               fr = show_nat (n mod 10 ^ p)
           in (if x < 0 then ''-'' else []) @ show_nat (n div 10 ^ p)
                @ (if p = 0 then []
                   else CHR ''.'' # replicate (p - length fr) (CHR ''0'') @ fr)))"

text \<open>\<open>setw(w)\<close> with \<open>left\<close> and with \<open>right\<close> adjustment, fill character space.\<close>

definition setw_left :: "nat \<Rightarrow> string \<Rightarrow> string" where
  "setw_left w t = t @ replicate (w - length t) (CHR '' '')"

definition setw_right :: "nat \<Rightarrow> string \<Rightarrow> string" where
  "setw_right w t = replicate (w - length t) (CHR '' '') @ t"

definition MATERIAL_WIDTH :: nat where
  "MATERIAL_WIDTH = 30"

definition INDEX_WIDTH :: nat where
  "INDEX_WIDTH = 10"

definition MAXIMA_WIDTH :: nat where
  "MAXIMA_WIDTH = 15"

definition THICKNESS_WIDTH :: nat where
  "THICKNESS_WIDTH = 20"

subsection \<open>The world: console and files\<close>

text \<open>
  A path names no file, a file that can be read and written, a file that can only be
  read, or something no \<open>open\<close> succeeds on.
\<close>

datatype disk_file = Absent | File string | ReadOnly string | Denied

text \<open>
  The console output is kept as the sequence of values inserted into \<open>cout\<close>: text, and
  numbers before their rendering (field width, adjustment and precision are
  presentation only and the program never reads its output back).
\<close>

datatype out_item = Text string | Dbl double | Num nat

record world =
  cin :: istream
  cout :: "out_item list"
  files :: "string \<Rightarrow> disk_file"

text \<open>
  How a run ends other than by returning: \<open>exit(status)\<close>, with the world as the
  process leaves it, or undefined behaviour: an element access outside the vector,
  \<open>pop_back\<close> on an empty vector, signed overflow, the read of a variable that was never
  assigned.
\<close>

datatype error = Exit int world | OutOfBounds | SignedOverflow | Uninitialized

definition put :: "out_item list \<Rightarrow> world \<Rightarrow> world" where
  "put xs w = w\<lparr>cout := cout w @ xs\<rparr>"

definition endl :: out_item where
  "endl = Text ''\<newline>''"

text \<open>\<open>ifstream fin(name)\<close>: the contents, or \<open>None\<close> when \<open>fin.fail()\<close>.\<close>

definition open_ifstream :: "disk_file \<Rightarrow> string option" where
  "open_ifstream f =
     (case f of Absent \<Rightarrow> None | File s \<Rightarrow> Some s | ReadOnly s \<Rightarrow> Some s | Denied \<Rightarrow> None)"

text \<open>
  \<open>ofstream fout(name)\<close> creates or truncates; with \<open>ios::app\<close> it creates or keeps the
  contents. The result is what the file holds once open, or \<open>None\<close> when \<open>fout.fail()\<close>.
\<close>

definition open_ofstream :: "disk_file \<Rightarrow> string option" where
  "open_ofstream f =
     (case f of Absent \<Rightarrow> Some [] | File s \<Rightarrow> Some [] | ReadOnly s \<Rightarrow> None | Denied \<Rightarrow> None)"

definition open_ofstream_app :: "disk_file \<Rightarrow> string option" where
  "open_ofstream_app f =
     (case f of Absent \<Rightarrow> Some [] | File s \<Rightarrow> Some s | ReadOnly s \<Rightarrow> None | Denied \<Rightarrow> None)"

text \<open>A vector element access \<open>v[i]\<close>, \<open>v[i] = x\<close> and \<open>v.pop_back()\<close>.\<close>

definition vec_at :: "'a list \<Rightarrow> nat \<Rightarrow> error + 'a" where
  "vec_at v i = (if i < length v then Inr (v ! i) else Inl OutOfBounds)"

definition vec_set :: "'a list \<Rightarrow> nat \<Rightarrow> 'a \<Rightarrow> error + 'a list" where
  "vec_set v i x = (if i < length v then Inr (v[i := x]) else Inl OutOfBounds)"

definition pop_back :: "'a list \<Rightarrow> error + 'a list" where
  "pop_back v = (if v = [] then Inl OutOfBounds else Inr (butlast v))"

text \<open>The conversions of an \<open>int\<close> to \<open>unsigned\<close> (32 bits) and to \<open>size_t\<close> (64 bits).\<close>

definition to_unsigned :: "int \<Rightarrow> nat" where
  "to_unsigned n = nat (n mod 2 ^ 32)"

definition to_size_t :: "int \<Rightarrow> nat" where
  "to_size_t n = nat (n mod 2 ^ 64)"

section \<open>Input and output of the class\<close>

text \<open>
  \<open>Thin_film::print\<close> and \<open>Thin_film::printLib\<close>: one row on \<open>cout\<close>.
\<close>

definition print :: "Thin_film \<Rightarrow> world \<Rightarrow> world" where
  "print f w =
     put [Text (mat f), Dbl (index f), Dbl (numberOfMaxima f), Dbl (getThickness f), endl] w"

definition printLib :: "Thin_film \<Rightarrow> world \<Rightarrow> world" where
  "printLib f w = put [Text (mat f), Dbl (index f), endl] w"

text \<open>
  \<open>Thin_film::read()\<close> reads the four fields from \<open>cin\<close>, straight into the instance
  variables: \<open>cin >> ws; getline(cin, mat); cin >> index; cin >> spectralRange;
  cin >> numberOfMaxima;\<close>. An extraction whose sentry fails leaves its variable as it
  was.
\<close>

definition assign_mat :: "string option \<Rightarrow> Thin_film \<Rightarrow> Thin_film" where
  "assign_mat r f = (case r of None \<Rightarrow> f | Some l \<Rightarrow> f\<lparr>mat := l\<rparr>)"

definition assign_index :: "double option \<Rightarrow> Thin_film \<Rightarrow> Thin_film" where
  "assign_index r f = (case r of None \<Rightarrow> f | Some v \<Rightarrow> f\<lparr>index := v\<rparr>)"

definition assign_spectralRange :: "double option \<Rightarrow> Thin_film \<Rightarrow> Thin_film" where
  "assign_spectralRange r f = (case r of None \<Rightarrow> f | Some v \<Rightarrow> f\<lparr>spectralRange := v\<rparr>)"

definition assign_numberOfMaxima :: "double option \<Rightarrow> Thin_film \<Rightarrow> Thin_film" where
  "assign_numberOfMaxima r f = (case r of None \<Rightarrow> f | Some v \<Rightarrow> f\<lparr>numberOfMaxima := v\<rparr>)"

definition read_cin :: "Thin_film \<Rightarrow> world \<Rightarrow> Thin_film \<times> world" where
  "read_cin f w =
     (let w1 = put [Text ''Enter the name of the film: ''] w;
          (s2, m) = getline (ws (cin w1));
          f2 = assign_mat m f;
          w2 = put [Text ''Enter the refractive index of the film: ''] w1;
          (s3, x) = extract_double s2;
          f3 = assign_index x f2;
          w3 = put [Text ''Enter the spectral bandwidth over which the spectra was acquired in nm: ''] w2;
          (s4, y) = extract_double s3;
          f4 = assign_spectralRange y f3;
          w4 = put [Text ''Enter the number of maxima within the spectral range: ''] w3;
          (s5, z) = extract_double s4;
          f5 = assign_numberOfMaxima z f4
      in (f5, w4\<lparr>cin := s5\<rparr>))"

text \<open>
  \<open>Thin_film::read(ifstream& fin)\<close>: \<open>fin >> ws; getline(fin, mat); fin >> index;\<close>.
\<close>

definition read_fin :: "istream \<Rightarrow> Thin_film \<Rightarrow> istream \<times> Thin_film" where
  "read_fin fin f =
     (let (s2, m) = getline (ws fin);
          f2 = assign_mat m f;
          (s3, x) = extract_double s2;
          f3 = assign_index x f2
      in (s3, f3))"

text \<open>
  \<open>Thin_film::writeFile\<close>: \<open>fout << mat << endl << index << endl;\<close>, as the text it
  adds to the stream.
\<close>

definition writeFile :: "Thin_film \<Rightarrow> string" where
  "writeFile f = mat f @ ''\<newline>'' @ fmt_g (index f) @ ''\<newline>''"

text \<open>
  \<open>Thin_film::writeMeasResultFile\<close>: asks, and on the answer \<open>y\<close> appends one row to the
  file. The row is the name left-adjusted in 30 columns, the index in 10 and the
  thickness in 15, both right-adjusted and in fixed notation.
\<close>

definition measurement_row :: "Thin_film \<Rightarrow> string" where
  "measurement_row f =
     setw_left MATERIAL_WIDTH (mat f)
       @ setw_right INDEX_WIDTH (fmt_fixed 2 (index f))
       @ setw_right MAXIMA_WIDTH (fmt_fixed 1 (getThickness f)) @ ''\<newline>''"

definition writeMeasResultFile :: "Thin_film \<Rightarrow> string \<Rightarrow> world \<Rightarrow> error + world" where
  "writeMeasResultFile f fileName w =
     (let w1 = put [Text ''Would you like to save this measurement result (y/n)? ''] w;
          (s2, r) = extract_string (cin w1);
          saveMeasurement = (case r of None \<Rightarrow> ''n'' | Some t \<Rightarrow> t);
          w2 = w1\<lparr>cin := s2\<rparr>
      in if saveMeasurement = ''y'' then
           (case open_ofstream_app (files w2 fileName) of
              None \<Rightarrow> Inl (Exit (- 1) (put [Text ''Output file failed to open.\<newline>''] w2))
            | Some old \<Rightarrow>
                Inr (w2\<lparr>files := (files w2)(fileName := File (old @ measurement_row f))\<rparr>))
         else Inr w2)"

section \<open>The library and the session\<close>

text \<open>
  Loop counters are \<open>unsigned\<close> in the source. Their increment is modelled without
  wrap-around, which is exact for every vector of fewer than \<open>2 ^ 32\<close> elements.
\<close>

subsection \<open>Saving and loading\<close>

text \<open>
  \<open>saveData\<close>: the file is truncated and every element written in order; a file that
  does not open ends the process with \<open>exit(-1)\<close>.
\<close>

primrec saveData_loop :: "Thin_film list \<Rightarrow> string" where
  "saveData_loop [] = []"
| "saveData_loop (f # rest) = writeFile f @ saveData_loop rest"

definition saveData :: "Thin_film list \<Rightarrow> string \<Rightarrow> world \<Rightarrow> error + world" where
  "saveData materialList fileName w =
     (case open_ofstream (files w fileName) of
        None \<Rightarrow> Inl (Exit (- 1) (put [Text ''Output file failed to open.\<newline>''] w))
      | Some old \<Rightarrow>
          Inr (w\<lparr>files := (files w)(fileName := File (old @ saveData_loop materialList))\<rparr>))"

text \<open>
  \<open>loadData\<close>: \<open>while (fin.good()) { film.read(fin); if (fin.good()) push_back(film); }\<close>
  on one \<open>film\<close> object declared before the loop. Every round that leaves the stream
  good has consumed a character, which is why the loop ends.
\<close>

lemma dropWhile_Cons_length: "dropWhile P xs = c # r \<Longrightarrow> length r < length xs"
  using length_dropWhile_le [of P xs] by simp

lemma length_scan_sign: "length (snd (scan_sign s)) \<le> length s"
  by (simp add: scan_sign_def split: list.splits)

lemma length_scan_exponent: "length (snd (snd (snd (scan_exponent b s)))) \<le> length s"
proof (cases s)
  case Nil
  then show ?thesis by (simp add: scan_exponent_def)
next
  case (Cons c r)
  have "length (dropWhile isdigit (snd (scan_sign r))) \<le> length r"
    using length_dropWhile_le [of isdigit "snd (scan_sign r)"] length_scan_sign [of r]
    by linarith
  then show ?thesis
    using Cons by (auto simp: scan_exponent_def split: prod.splits)
qed

lemma length_scan_mantissa: "length (snd (snd (scan_mantissa s))) \<le> length s"
proof (cases "dropWhile isdigit s")
  case Nil
  show ?thesis unfolding scan_mantissa_def Nil by simp
next
  case (Cons c r)
  have "length r < length s" using Cons by (rule dropWhile_Cons_length)
  moreover have "length (dropWhile isdigit r) \<le> length r" by (rule length_dropWhile_le)
  ultimately show ?thesis unfolding scan_mantissa_def Cons by simp
qed

lemma length_extract_float: "length (snd (extract_float s)) \<le> length s"
proof -
  obtain neg s1 where s1: "scan_sign s = (neg, s1)" by (cases "scan_sign s")
  obtain ip fp s3 where s3: "scan_mantissa s1 = (ip, fp, s3)" by (cases "scan_mantissa s1")
  obtain he en ep s4 where s4: "scan_exponent (found_mantissa ip fp) s3 = (he, en, ep, s4)"
    by (cases "scan_exponent (found_mantissa ip fp) s3")
  have a: "length s1 \<le> length s" using length_scan_sign [of s] s1 by simp
  have b: "length s3 \<le> length s1" using length_scan_mantissa [of s1] s3 by simp
  have c: "length s4 \<le> length s3"
    using length_scan_exponent [of "found_mantissa ip fp" s3] s4 by simp
  have "snd (extract_float s) = s4" by (simp add: extract_float_def s1 s3 s4)
  then show ?thesis using a b c by simp
qed

lemma length_ws: "length (buf (ws s)) \<le> length (buf s)"
  by (auto simp: ws_def sentry_noskip_def split: list.splits dest: dropWhile_Cons_length)

lemma getline_good_shorter:
  assumes "getline s = (s', m)" and "good s'"
  shows "length (buf s') < length (buf s)"
proof (cases "good s")
  case False
  then have "s' = s\<lparr>failbit := True\<rparr>"
    using assms(1) by (simp add: getline_def sentry_noskip_def)
  then show ?thesis using assms(2) by (simp add: good_def)
next
  case True
  show ?thesis
  proof (cases "dropWhile (\<lambda>c. c \<noteq> CHR 0x0A) (buf s)")
    case Nil
    have "s' = s\<lparr>buf := [], eofbit := True,
                 failbit := (takeWhile (\<lambda>c. c \<noteq> CHR 0x0A) (buf s) = [])\<rparr>"
      using assms(1) True by (simp add: getline_def sentry_noskip_def Let_def Nil)
    then show ?thesis using assms(2) by (simp add: good_def)
  next
    case (Cons c r)
    have "s' = s\<lparr>buf := r\<rparr>"
      using assms(1) True by (simp add: getline_def sentry_noskip_def Let_def Cons)
    then show ?thesis using dropWhile_Cons_length [OF Cons] by simp
  qed
qed

lemma sentry_skipws_length:
  "sentry_skipws s = (s1, ok) \<Longrightarrow> length (buf s1) \<le> length (buf s)"
  by (auto simp: sentry_skipws_def split: if_splits list.splits dest: dropWhile_Cons_length)

lemma sentry_skipws_ok: "sentry_skipws s = (s1, True) \<Longrightarrow> good s"
  by (auto simp: sentry_skipws_def split: if_splits list.splits)

lemma sentry_skipws_not_ok: "sentry_skipws s = (s1, False) \<Longrightarrow> \<not> good s1"
  by (auto simp: sentry_skipws_def good_def split: if_splits list.splits)

lemma length_extract_double: "length (buf (fst (extract_double s))) \<le> length (buf s)"
proof (cases "sentry_skipws s")
  case (Pair s1 ok)
  note a = sentry_skipws_length [OF Pair]
  show ?thesis
  proof (cases ok)
    case False
    then show ?thesis using Pair a by (simp add: extract_double_def)
  next
    case True
    obtain r rest where ef: "extract_float (buf s1) = (r, rest)"
      by (cases "extract_float (buf s1)")
    have "length rest \<le> length (buf s1)" using length_extract_float [of "buf s1"] ef by simp
    then show ?thesis using True Pair a ef by (simp add: extract_double_def)
  qed
qed

lemma extract_double_good: "good (fst (extract_double s)) \<Longrightarrow> good s"
proof (cases "sentry_skipws s")
  case (Pair s1 ok)
  assume g: "good (fst (extract_double s))"
  show ?thesis
  proof (cases ok)
    case False
    then have "fst (extract_double s) = s1" using Pair by (simp add: extract_double_def)
    then show ?thesis using g sentry_skipws_not_ok Pair False by auto
  next
    case True
    then show ?thesis using Pair sentry_skipws_ok by auto
  qed
qed

lemma read_fin_shorter:
  "read_fin fin f = (fin', f') \<Longrightarrow> good fin' \<Longrightarrow> length (buf fin') < length (buf fin)"
proof -
  assume r: "read_fin fin f = (fin', f')" and g: "good fin'"
  obtain s2 m where gl: "getline (ws fin) = (s2, m)" by (cases "getline (ws fin)")
  have fin': "fin' = fst (extract_double s2)"
    using r gl by (simp add: read_fin_def Let_def split: prod.splits)
  have "good s2" using g fin' extract_double_good by simp
  then have "length (buf s2) < length (buf (ws fin))" using gl getline_good_shorter by blast
  moreover have "length (buf fin') \<le> length (buf s2)"
    unfolding fin' by (rule length_extract_double)
  ultimately show ?thesis
    using length_ws [of fin] by linarith
qed

function loadData_loop :: "istream \<Rightarrow> Thin_film \<Rightarrow> Thin_film list \<Rightarrow> Thin_film list" where
  "loadData_loop fin film materialList =
     (if good fin then
        (case read_fin fin film of
           (fin', film') \<Rightarrow>
             loadData_loop fin' film'
               (if good fin' then materialList @ [film'] else materialList))
      else materialList)"
  by pat_completeness auto
termination
  apply (relation "measure (\<lambda>(fin, film, ml). if good fin then Suc (length (buf fin)) else 0)")
   apply simp
  apply (auto dest: read_fin_shorter [OF sym])
  done

definition loadData ::
  "Thin_film list \<Rightarrow> string \<Rightarrow> world \<Rightarrow> error + (Thin_film list \<times> world)" where
  "loadData materialList fileName w =
     (case open_ifstream (files w fileName) of
        None \<Rightarrow>
          Inl (Exit 1 (put [Text ''File '', Text fileName, Text '' failed to open.\<newline>''] w))
      | Some s \<Rightarrow> Inr (loadData_loop (open_istream s) Thin_film_default materialList, w))"

subsection \<open>Listing and choosing\<close>

function listFilms_loop :: "nat \<Rightarrow> Thin_film list \<Rightarrow> world \<Rightarrow> world" where
  "listFilms_loop num materialList w =
     (if num < length materialList then
        listFilms_loop (num + 1) materialList
          (printLib (materialList ! num) (put [Num (num + 1), Text '' ''] w))
      else w)"
  by pat_completeness auto
termination
  by (relation "measure (\<lambda>(num, materialList, w). length materialList - num)") auto

declare listFilms_loop.simps [simp del]

definition listFilms :: "Thin_film list \<Rightarrow> world \<Rightarrow> world" where
  "listFilms materialList w =
     listFilms_loop 0 materialList
       (put [Text ''\<newline>THIN FILM LIBRARY\<newline>'', Text ''Material'', Text ''Index'', endl] w)"

text \<open>
  \<open>getFilmIndex\<close>: \<open>int pos = 0; cin >> pos; return pos - 1;\<close>, with no check of
  \<open>pos\<close> against the size of the vector. The subtraction overflows when the extraction
  has stored the least \<open>int\<close>.
\<close>

definition getFilmIndex :: "Thin_film list \<Rightarrow> world \<Rightarrow> error + (int \<times> world)" where
  "getFilmIndex materialList w =
     (let w1 = put [Text ''Enter the number preceeding the name of the thin film material: '']
                 (listFilms materialList w);
          (s2, r) = extract_int (cin w1);
          pos = (case r of None \<Rightarrow> 0 | Some n \<Rightarrow> n)
      in if pos = INT_MIN then Inl SignedOverflow
         else Inr (pos - 1, w1\<lparr>cin := s2\<rparr>))"

subsection \<open>DELETE\<close>

text \<open>
  \<open>for (unsigned i = pos; i < materialList.size() - 1; i++)
  materialList[i] = materialList[i + 1];\<close> The bound \<open>size() - 1\<close> is computed in
  \<open>size_t\<close>: on an empty vector it is \<open>2 ^ 64 - 1\<close>.
\<close>

function deleteFilm_loop :: "nat \<Rightarrow> Thin_film list \<Rightarrow> error + Thin_film list" where
  "deleteFilm_loop i materialList =
     (if i < (if materialList = [] then 2 ^ 64 - 1 else length materialList - 1) then
        (case vec_at materialList (i + 1) of
           Inl e \<Rightarrow> Inl e
         | Inr x \<Rightarrow>
             (case vec_set materialList i x of
                Inl e \<Rightarrow> Inl e
              | Inr materialList' \<Rightarrow> deleteFilm_loop (i + 1) materialList'))
      else Inr materialList)"
  by pat_completeness auto
termination
  by (relation "measure (\<lambda>(i, materialList). length materialList - i)")
    (auto simp: vec_at_def vec_set_def split: if_splits)

declare deleteFilm_loop.simps [simp del]

definition deleteFilm :: "Thin_film list \<Rightarrow> world \<Rightarrow> error + (Thin_film list \<times> world)" where
  "deleteFilm materialList w =
     (case getFilmIndex materialList w of
        Inl e \<Rightarrow> Inl e
      | Inr (pos, w1) \<Rightarrow>
          (case deleteFilm_loop (to_unsigned pos) materialList of
             Inl e \<Rightarrow> Inl e
           | Inr shifted \<Rightarrow>
               (case pop_back shifted of
                  Inl e \<Rightarrow> Inl e
                | Inr materialList' \<Rightarrow>
                    (case saveData materialList' ''films.txt'' w1 of
                       Inl e \<Rightarrow> Inl e
                     | Inr w2 \<Rightarrow> Inr (materialList', w2)))))"

subsection \<open>ADD\<close>

text \<open>
  \<open>addMaterial()\<close> has no access to the vector. What it appends to \<open>films.txt\<close> are its
  local variables \<open>mat\<close> and \<open>index\<close>, not the fields of \<open>unknown\<close>.
\<close>

definition addMaterial :: "world \<Rightarrow> error + world" where
  "addMaterial w =
     (let unknown = Thin_film_default;
          w1 = put [Text ''Enter the name of the film: ''] w;
          (s2, m) = getline (ws (cin w1));
          name = (case m of None \<Rightarrow> [] | Some l \<Rightarrow> l);
          unknown1 = setMat name unknown;
          w2 = put [Text ''Enter the refractive index of the film: ''] w1;
          (s3, x) = extract_double s2;
          idx = (case x of None \<Rightarrow> Val 0 | Some v \<Rightarrow> v);
          unknown2 = setIndex idx unknown1;
          w3 = put [endl, Text ''Material'', Text ''Index'', endl, Text name, Dbl idx, endl,
                    endl, Text ''Save material and index of this film (y/n)? ''] w2;
          (s4, r) = extract_string s3;
          saveMatIndex = (case r of None \<Rightarrow> ''n'' | Some t \<Rightarrow> t);
          w4 = w3\<lparr>cin := s4\<rparr>
      in if saveMatIndex = ''y'' then
           (case open_ofstream_app (files w4 ''films.txt'') of
              None \<Rightarrow> Inl (Exit (- 1) (put [Text ''Output file failed to open.\<newline>''] w4))
            | Some old \<Rightarrow>
                Inr (w4\<lparr>files := (files w4)
                       (''films.txt'' := File (old @ name @ ''\<newline>'' @ fmt_g idx @ ''\<newline>''))\<rparr>))
         else Inr w4)"

subsection \<open>CALCULATE\<close>

definition table_header :: "out_item list" where
  "table_header =
     [Text ''Material'', Text ''Index'', Text ''# of maxima'', Text ''Thickness (nm)'', endl]"

text \<open>
  The branch of \<open>calculateThickness\<close> that takes the film from the library:
  \<open>Thin_film film = materialList[pos]; materialList.push_back(film);\<close> and then the
  two setters on the local copy \<open>film\<close>. \<open>newSpectralRange\<close> and \<open>newnumberOfMaxima\<close>
  are declared without a value, so an extraction that leaves them untouched is followed
  by the read of an unassigned variable.
\<close>

definition calculate_library ::
  "Thin_film list \<Rightarrow> world \<Rightarrow> error + (Thin_film list \<times> world)" where
  "calculate_library materialList w =
     (case getFilmIndex materialList w of
        Inl e \<Rightarrow> Inl e
      | Inr (pos, w1) \<Rightarrow>
          (case vec_at materialList (to_size_t pos) of
             Inl e \<Rightarrow> Inl e
           | Inr film \<Rightarrow>
               (let materialList' = materialList @ [film];
                    w2 = put [Text ''Enter the spectral bandwidth over which the spectra was acquired in nm: ''] w1;
                    (s3, x) = extract_double (cin w2)
                in case x of
                     None \<Rightarrow> Inl Uninitialized
                   | Some newSpectralRange \<Rightarrow>
                       (let film1 = setspectralRange newSpectralRange film;
                            w3 = put [Text ''Enter the number of maxima within the spectral range: '']
                                   (w2\<lparr>cin := s3\<rparr>);
                            (s4, y) = extract_double (cin w3)
                        in case y of
                             None \<Rightarrow> Inl Uninitialized
                           | Some newnumberOfMaxima \<Rightarrow>
                               (let film2 = setnumberOfMaxima newnumberOfMaxima film1;
                                    w4 = print film2 (put (endl # table_header) (w3\<lparr>cin := s4\<rparr>))
                                in case writeMeasResultFile film2 ''data.txt'' w4 of
                                     Inl e \<Rightarrow> Inl e
                                   | Inr w5 \<Rightarrow> Inr (materialList', w5))))))"

text \<open>
  The other branch: \<open>Thin_film unknown; unknown.read(); materialList.push_back(unknown);\<close>,
  the row, and on the answer \<open>y\<close> \<open>saveData(materialList, "films.txt")\<close>.
\<close>

definition calculate_unknown ::
  "Thin_film list \<Rightarrow> world \<Rightarrow> error + (Thin_film list \<times> world)" where
  "calculate_unknown materialList w =
     (let (unknown, w1) = read_cin Thin_film_default w;
          materialList' = materialList @ [unknown];
          w2 = print unknown (put (endl # table_header) w1);
          w3 = put [Text ''Save material and index of this film (y/n)? ''] w2;
          (s4, r) = extract_string (cin w3);
          saveMatIndex = (case r of None \<Rightarrow> ''y'' | Some t \<Rightarrow> t);
          w4 = w3\<lparr>cin := s4\<rparr>
      in case (if saveMatIndex = ''y'' then saveData materialList' ''films.txt'' w4 else Inr w4) of
           Inl e \<Rightarrow> Inl e
         | Inr w5 \<Rightarrow>
             (case writeMeasResultFile unknown ''data.txt'' w5 of
                Inl e \<Rightarrow> Inl e
              | Inr w6 \<Rightarrow> Inr (materialList', w6)))"

text \<open>
  \<open>while (repeat == "y")\<close>. The loop runs for as long as the user answers \<open>y\<close>, and
  for ever once \<open>cin\<close> has failed with \<open>repeat\<close> still \<open>y\<close>; the first argument bounds
  the number of rounds, and \<open>None\<close> is a run that needs more.
\<close>

fun calculateThickness_loop ::
  "nat \<Rightarrow> string \<Rightarrow> Thin_film list \<Rightarrow> world \<Rightarrow> (error + (Thin_film list \<times> world)) option" where
  "calculateThickness_loop 0 repeat materialList w =
     (if repeat = ''y'' then None else Some (Inr (materialList, w)))"
| "calculateThickness_loop (Suc n) repeat materialList w =
     (if repeat = ''y'' then
        (let w1 = put [Text ''Read material data from library? (y/n): ''] w;
             (s2, r) = extract_string (cin w1);
             libFilm = (case r of None \<Rightarrow> ''y'' | Some t \<Rightarrow> t);
             w2 = w1\<lparr>cin := s2\<rparr>
         in case (if libFilm = ''y'' then calculate_library materialList w2
                  else calculate_unknown materialList w2) of
              Inl e \<Rightarrow> Some (Inl e)
            | Inr (materialList', w3) \<Rightarrow>
                (let w4 = put [Text ''Enter another thin film? (y/n): ''] w3;
                     (s5, r') = extract_string (cin w4);
                     repeat' = (case r' of None \<Rightarrow> repeat | Some t \<Rightarrow> t)
                 in calculateThickness_loop n repeat' materialList' (w4\<lparr>cin := s5\<rparr>)))
      else Some (Inr (materialList, w)))"

definition calculateThickness ::
  "nat \<Rightarrow> Thin_film list \<Rightarrow> world \<Rightarrow> (error + (Thin_film list \<times> world)) option" where
  "calculateThickness n materialList w = calculateThickness_loop n ''y'' materialList w"

subsection \<open>The menu\<close>

definition CAL_THICKNESS :: int where
  "CAL_THICKNESS = 1"

definition MATERIAL_LIST :: int where
  "MATERIAL_LIST = 2"

definition ADD_MATERIAL :: int where
  "ADD_MATERIAL = 3"

definition DEL_MATERIAL :: int where
  "DEL_MATERIAL = 4"

definition EXIT :: int where
  "EXIT = 0"

definition menu :: "out_item list" where
  "menu =
     [Text ''\<newline>Please choose one of the following operations: \<newline>'',
      Num (nat EXIT), Text ''. Exit the program\<newline>'',
      Num (nat CAL_THICKNESS), Text ''. Calculate thickness of arbitrary film\<newline>'',
      Num (nat MATERIAL_LIST), Text ''. List the materials in the thin film library\<newline>'',
      Num (nat ADD_MATERIAL), Text ''. Add a new thin film to the library\<newline>'',
      Num (nat DEL_MATERIAL), Text ''. Delete a thin film from the library\<newline>'',
      Text ''Choice (0-4): '']"

text \<open>
  One round of \<open>while (choice != 0)\<close> in \<open>main\<close>: the menu, \<open>cin >> choice\<close> and the
  operation chosen. The first argument bounds the rounds of this loop and of the loop
  of \<open>calculateThickness\<close>.
\<close>

fun main_loop :: "nat \<Rightarrow> int \<Rightarrow> Thin_film list \<Rightarrow> world \<Rightarrow> (error + world) option" where
  "main_loop 0 choice materialList w = (if choice \<noteq> 0 then None else Some (Inr w))"
| "main_loop (Suc n) choice materialList w =
     (if choice \<noteq> 0 then
        (let w1 = put menu w;
             (s2, r) = extract_int (cin w1);
             choice' = (case r of None \<Rightarrow> choice | Some c \<Rightarrow> c);
             w2 = w1\<lparr>cin := s2\<rparr>
         in if choice' = CAL_THICKNESS then
              (case calculateThickness n materialList w2 of
                 None \<Rightarrow> None
               | Some (Inl e) \<Rightarrow> Some (Inl e)
               | Some (Inr (materialList', w3)) \<Rightarrow> main_loop n choice' materialList' w3)
            else if choice' = MATERIAL_LIST then
              main_loop n choice' materialList (listFilms materialList w2)
            else if choice' = ADD_MATERIAL then
              (case addMaterial w2 of
                 Inl e \<Rightarrow> Some (Inl e)
               | Inr w3 \<Rightarrow> main_loop n choice' materialList w3)
            else if choice' = DEL_MATERIAL then
              (case deleteFilm materialList w2 of
                 Inl e \<Rightarrow> Some (Inl e)
               | Inr (materialList', w3) \<Rightarrow> main_loop n choice' materialList' w3)
            else main_loop n choice' materialList w2)
      else Some (Inr w))"

text \<open>\<open>main\<close>; the result \<open>Inr w\<close> is \<open>return 0\<close> in the world \<open>w\<close>.\<close>

definition main :: "nat \<Rightarrow> world \<Rightarrow> (error + world) option" where
  "main n w =
     (case loadData [] ''films.txt'' w of
        Inl e \<Rightarrow> Some (Inl e)
      | Inr (materialList, w1) \<Rightarrow>
          (case main_loop n 1 materialList (put [endl, Text ''Thin Film Calculator\<newline>''] w1) of
             None \<Rightarrow> None
           | Some (Inl e) \<Rightarrow> Some (Inl e)
           | Some (Inr w2) \<Rightarrow> Some (Inr (put [Text ''\<newline>Goodbye!\<newline>''] w2))))"

section \<open>The round trip through the library file\<close>

text \<open>\<open>save(load(path))\<close>: the list that \<open>loadData\<close> builds from a file, saved to the same file.\<close>

definition save_load :: "string \<Rightarrow> world \<Rightarrow> error + world" where
  "save_load path w =
     (case loadData [] path w of
        Inl e \<Rightarrow> Inl e
      | Inr (materialList, w1) \<Rightarrow> saveData materialList path w1)"

text \<open>
  A record in the form that survives the round trip: the name is not empty, does not
  start with white space and has no newline, and the text that \<open>writeFile\<close> produces
  for the index is read back in full, as a number that is written as the same text.
\<close>

definition name_ok :: "string \<Rightarrow> bool" where
  "name_ok n = (n \<noteq> [] \<and> \<not> isspace (hd n) \<and> CHR 0x0A \<notin> set n)"

definition reread :: "double \<Rightarrow> double option" where
  "reread x =
     (case extract_float (fmt_g x) of
        (Some y, []) \<Rightarrow> Some (Val y)
      | _ \<Rightarrow> None)"

definition canonical :: "Thin_film \<Rightarrow> bool" where
  "canonical f =
     (name_ok (mat f) \<and>
      (case reread (index f) of None \<Rightarrow> False | Some y \<Rightarrow> fmt_g y = fmt_g (index f)))"

text \<open>The characters that can continue a floating-point field.\<close>

definition number_char :: "char \<Rightarrow> bool" where
  "number_char c = (isdigit c \<or> c \<in> set ''+-.eE'')"

section \<open>Running the model on concrete input\<close>

text \<open>
  A world with the given console input and no file, and the library of the
  specification's scenario as \<open>loadData\<close> builds it.
\<close>

definition console :: "string \<Rightarrow> world" where
  "console s = \<lparr>cin = open_istream s, cout = [], files = (\<lambda>p. Absent)\<rparr>"

definition example_library :: "Thin_film list" where
  "example_library =
     [\<lparr>mat = ''SiO2'', spectralRange = Val 0, index = Val 1.46, numberOfMaxima = Val 0\<rparr>,
      \<lparr>mat = ''Si3N4'', spectralRange = Val 0, index = Val 2.05, numberOfMaxima = Val 0\<rparr>]"

text \<open>A world with the given console input and the given contents of \<open>films.txt\<close>.\<close>

definition session :: "string \<Rightarrow> string \<Rightarrow> world" where
  "session input library_file =
     \<lparr>cin = open_istream input, cout = [],
      files = (\<lambda>p. Absent)(''films.txt'' := File library_file)\<rparr>"

lemmas stream_eval = extract_double_def extract_int_def extract_string_def getline_def ws_def
  sentry_skipws_def sentry_noskip_def good_def open_istream_def isspace_def isdigit_def
  scan_sign_def scan_mantissa_def scan_exponent_def found_mantissa_def float_value_def
  extract_float_def digits_val_def digit_val_def INT_MAX_def INT_MIN_def

lemmas assign_eval = assign_mat_def assign_index_def assign_spectralRange_def
  assign_numberOfMaxima_def

lemma show_nat_small: "n < 10 \<Longrightarrow> show_nat n = [''0123456789'' ! n]"
  by (simp add: show_nat.simps)

lemma show_nat_big:
  "10 \<le> n \<Longrightarrow> show_nat n = show_nat (n div 10) @ [''0123456789'' ! (n mod 10)]"
  by (subst show_nat.simps) simp

lemmas fmt_eval = fmt_g_def fmt_fixed_def dec_exp_def scale10_def show_nat_small show_nat_big
  strip_zeros_def with_point_def round_def Let_def

lemma loadData_loop_good:
  "good fin \<Longrightarrow> loadData_loop fin film ml =
     (case read_fin fin film of (fin', film') \<Rightarrow>
        loadData_loop fin' film' (if good fin' then ml @ [film'] else ml))"
  by (subst loadData_loop.simps) simp

lemma loadData_loop_not_good: "\<not> good fin \<Longrightarrow> loadData_loop fin film ml = ml"
  by (subst loadData_loop.simps) simp

declare loadData_loop.simps [simp del]

lemma listFilms_loop_step:
  "num < length ml \<Longrightarrow> listFilms_loop num ml w =
     listFilms_loop (num + 1) ml (printLib (ml ! num) (put [Num (num + 1), Text '' ''] w))"
  by (subst listFilms_loop.simps) simp

lemma listFilms_loop_done: "\<not> num < length ml \<Longrightarrow> listFilms_loop num ml w = w"
  by (subst listFilms_loop.simps) simp

lemmas listFilms_eval = listFilms_def listFilms_loop_step listFilms_loop_done printLib_def
  put_def endl_def

lemmas load_eval = loadData_def open_ifstream_def loadData_loop_good loadData_loop_not_good
  read_fin_def assign_eval Thin_film_default_def

section \<open>Properties of the class\<close>

text \<open>
  C4. For every value \<open>v\<close>, each of \<open>setIndex\<close>, \<open>setspectralRange\<close> and
  \<open>setnumberOfMaxima\<close> stores 0 when \<open>v\<close> is negative and \<open>v\<close> itself when
  \<open>v \<ge> 0\<close>.
\<close>

theorem setters_clamp:
  "index (setIndex (Val v) f) = (if v < 0 then Val 0 else Val v) \<and>
   spectralRange (setspectralRange (Val v) f) = (if v < 0 then Val 0 else Val v) \<and>
   numberOfMaxima (setnumberOfMaxima (Val v) f) = (if v < 0 then Val 0 else Val v)"
  by (simp add: setIndex_def setspectralRange_def setnumberOfMaxima_def)

text \<open>
  C3, as the code has it. \<open>Thin_film::read()\<close> assigns what \<open>cin\<close> delivers to the
  instance variables without going through the setters: on the console input
  \<open>X\<close>, \<open>-2\<close>, \<open>-50\<close>, \<open>-3\<close> all three numeric fields are stored negative.
\<close>

theorem read_cin_stores_negative:
  "fst (read_cin Thin_film_default (console ''X\<newline>-2\<newline>-50\<newline>-3\<newline>'')) =
     \<lparr>mat = ''X'', spectralRange = Val (- 50), index = Val (- 2), numberOfMaxima = Val (- 3)\<rparr>"
  by (simp add: console_def read_cin_def put_def Thin_film_default_def assign_eval stream_eval)

text \<open>
  The same for \<open>Thin_film::read(ifstream&)\<close>, which \<open>loadData\<close> calls: a negative
  index in the library file is stored as it is.
\<close>

lemma read_fin_stores_negative:
  "snd (read_fin (open_istream ''X\<newline>-2\<newline>'') Thin_film_default) =
     \<lparr>mat = ''X'', spectralRange = Val 0, index = Val (- 2), numberOfMaxima = Val 0\<rparr>"
  by (simp add: read_fin_def Thin_film_default_def assign_eval stream_eval)




section \<open>The scenario of the specification\<close>

lemma sqrt_scenario_lower: "1789 / 1000 < sqrt (1281 / 400 :: real)"
  by (rule real_less_rsqrt) (simp add: power2_eq_square)

lemma sqrt_scenario_upper: "sqrt (1281 / 400 :: real) < 179 / 100"
  by (rule real_less_lsqrt) (simp_all add: power2_eq_square)

lemma round_scenario: "round (75 * sqrt (1281 / 400 :: real) * 10) = 1342"
proof -
  have "\<lfloor>75 * sqrt (1281 / 400 :: real) * 10 + 1 / 2\<rfloor> = 1342"
    using sqrt_scenario_lower sqrt_scenario_upper by (intro floor_unique) simp_all
  then show ?thesis by (simp add: round_def)
qed

lemma fmt_fixed_scenario: "fmt_fixed 1 (Val (75 * sqrt (1281 / 400))) = ''134.2''"
proof -
  have "0 \<le> 75 * sqrt (1281 / 400 :: real)" by simp
  then show ?thesis
    using round_scenario
    by (simp add: fmt_fixed_def Let_def show_nat_small show_nat_big abs_if
        del: real_sqrt_ge_0_iff)
qed

text \<open>
  C8, as stated, fails. The film that CALCULATE builds from library position 2 with
  spectral range 50 and 3 maxima has the thickness \<open>75 * sqrt 3.2025\<close>, which is below
  134.25: it is not approximately 268.1.
\<close>

theorem scenario_thickness_counterexample:
  "getThickness (setnumberOfMaxima (Val 3) (setspectralRange (Val 50) (example_library ! 1)))
     = Val (75 * sqrt (1281 / 400)) \<and>
   75 * sqrt (1281 / 400 :: real) < 134.25"
  using sqrt_scenario_upper
  by (simp add: example_library_def setnumberOfMaxima_def setspectralRange_def getThickness_def)

text \<open>
  C8, amended. On the scenario's library, CALCULATE from the library with the console
  input \<open>2\<close>, \<open>50\<close>, \<open>3\<close> and \<open>n\<close> prints the row of Si3N4 with the index 2.05, 3
  maxima and the thickness \<open>75 * sqrt 3.2025\<close>, which the fixed notation with one
  decimal of \<open>Thin_film::print\<close> renders as 134.2.
\<close>

theorem scenario_displays_134_2:
  "calculate_library example_library (console ''2\<newline>50\<newline>3\<newline>n\<newline>'') =
     Inr (example_library @ [example_library ! 1],
          \<lparr>cin = \<lparr>buf = ''\<newline>'', eofbit = False, failbit = False\<rparr>,
           cout =
             [Text ''\<newline>THIN FILM LIBRARY\<newline>'', Text ''Material'', Text ''Index'', endl,
              Num 1, Text '' '', Text ''SiO2'', Dbl (Val 1.46), endl,
              Num 2, Text '' '', Text ''Si3N4'', Dbl (Val 2.05), endl,
              Text ''Enter the number preceeding the name of the thin film material: '',
              Text ''Enter the spectral bandwidth over which the spectra was acquired in nm: '',
              Text ''Enter the number of maxima within the spectral range: '',
              endl, Text ''Material'', Text ''Index'', Text ''# of maxima'',
              Text ''Thickness (nm)'', endl,
              Text ''Si3N4'', Dbl (Val 2.05), Dbl (Val 3), Dbl (Val (75 * sqrt (1281 / 400))), endl,
              Text ''Would you like to save this measurement result (y/n)? ''],
           files = (\<lambda>p. Absent)\<rparr>) \<and>
   fmt_fixed 1 (Val (75 * sqrt (1281 / 400))) = ''134.2''"
  using fmt_fixed_scenario
  by (simp add: calculate_library_def getFilmIndex_def listFilms_eval print_def console_def
      example_library_def stream_eval vec_at_def to_size_t_def setspectralRange_def
      setnumberOfMaxima_def getThickness_def table_header_def writeMeasResultFile_def)

section \<open>The session: frame and position lemmas\<close>

lemma cin_put [simp]: "cin (put xs w) = cin w"
  by (simp add: put_def)

lemma files_put [simp]: "files (put xs w) = files w"
  by (simp add: put_def)

lemma cin_printLib [simp]: "cin (printLib f w) = cin w"
  by (simp add: printLib_def)

lemma files_printLib [simp]: "files (printLib f w) = files w"
  by (simp add: printLib_def)

lemma cin_print [simp]: "cin (print f w) = cin w"
  by (simp add: print_def)

lemma files_print [simp]: "files (print f w) = files w"
  by (simp add: print_def)

lemma listFilms_loop_frame:
  "cin (listFilms_loop num ml w) = cin w \<and> files (listFilms_loop num ml w) = files w"
proof (induction num ml w rule: listFilms_loop.induct)
  case (1 num ml w)
  show ?case
  proof (cases "num < length ml")
    case True
    then show ?thesis using 1 by (simp add: listFilms_loop_step)
  next
    case False
    then show ?thesis by (simp add: listFilms_loop_done)
  qed
qed

lemma cin_listFilms [simp]: "cin (listFilms ml w) = cin w"
  by (simp add: listFilms_def listFilms_loop_frame)

lemma files_listFilms [simp]: "files (listFilms ml w) = files w"
  by (simp add: listFilms_def listFilms_loop_frame)

lemma extract_int_range:
  assumes "extract_int s = (s', Some k)"
  shows "INT_MIN \<le> k \<and> k \<le> INT_MAX"
proof (cases "sentry_skipws s")
  case (Pair s1 ok)
  show ?thesis
  proof (cases ok)
    case False
    then show ?thesis using assms Pair by (simp add: extract_int_def)
  next
    case True
    obtain neg s2 where ss: "scan_sign (buf s1) = (neg, s2)" by (cases "scan_sign (buf s1)")
    show ?thesis
      using assms Pair True ss
      by (auto simp: extract_int_def Let_def INT_MIN_def INT_MAX_def split: if_splits)
  qed
qed

lemma getFilmIndex_Some:
  assumes "extract_int (cin w) = (s, Some k)" and "k \<noteq> INT_MIN"
  shows "getFilmIndex ml w =
           Inr (k - 1, (put [Text ''Enter the number preceeding the name of the thin film material: '']
                  (listFilms ml w))\<lparr>cin := s\<rparr>)"
  using assms by (simp add: getFilmIndex_def)

lemma deleteFilm_loop_step:
  "i + 1 < length ml \<Longrightarrow>
   deleteFilm_loop i ml = deleteFilm_loop (i + 1) (ml[i := ml ! (i + 1)])"
  by (subst deleteFilm_loop.simps) (auto simp: vec_at_def vec_set_def)

lemma deleteFilm_loop_done:
  "ml \<noteq> [] \<Longrightarrow> length ml \<le> i + 1 \<Longrightarrow> deleteFilm_loop i ml = Inr ml"
  by (subst deleteFilm_loop.simps) auto

lemma deleteFilm_loop_empty:
  "i < 2 ^ 64 - 1 \<Longrightarrow> deleteFilm_loop i [] = Inl OutOfBounds"
  by (subst deleteFilm_loop.simps) (simp add: vec_at_def)



section \<open>DELETE removes the chosen position\<close>










section \<open>Positions are not checked\<close>

lemma to_size_t_negative:
  assumes "INT_MIN \<le> n" and "n < 0"
  shows "2 ^ 32 \<le> to_size_t n"
proof -
  have "n mod 2 ^ 64 = (n + 2 ^ 64) mod 2 ^ 64" by simp
  also have "\<dots> = n + 2 ^ 64"
    using assms by (intro mod_pos_pos_trivial) (simp_all add: INT_MIN_def)
  finally show ?thesis using assms by (simp add: to_size_t_def INT_MIN_def)
qed

lemma to_size_t_id: "0 \<le> n \<Longrightarrow> n \<le> INT_MAX \<Longrightarrow> to_size_t n = nat n"
  by (simp add: to_size_t_def INT_MAX_def)

lemma to_unsigned_less: "to_unsigned n < 2 ^ 64 - 1"
proof -
  have "n mod 2 ^ 32 < 2 ^ 32" by simp
  then show ?thesis by (simp add: to_unsigned_def)
qed

text \<open>
  C10. The position read from the console reaches the element access unchecked. For
  every library of fewer than \<open>2 ^ 32\<close> records and every position \<open>k\<close> read that is
  below 1 or above the size of the library, the access \<open>materialList[pos]\<close> of
  CALCULATE is out of bounds; on an empty library the access of DELETE is out of bounds
  for every position.
\<close>

theorem positions_unchecked:
  assumes "extract_int (cin w) = (s, Some k)" and "k \<noteq> INT_MIN"
  shows "(length ml < 2 ^ 32 \<and> (k < 1 \<or> int (length ml) < k) \<longrightarrow>
            calculate_library ml w = Inl OutOfBounds) \<and>
         deleteFilm [] w = Inl OutOfBounds"
proof (intro conjI impI)
  have range: "INT_MIN \<le> k \<and> k \<le> INT_MAX" using assms(1) by (rule extract_int_range)
  note g = getFilmIndex_Some [OF assms]
  have "deleteFilm_loop (to_unsigned (k - 1)) [] = Inl OutOfBounds"
    by (rule deleteFilm_loop_empty [OF to_unsigned_less])
  then show "deleteFilm [] w = Inl OutOfBounds"
    by (simp add: deleteFilm_def g)
  assume a: "length ml < 2 ^ 32 \<and> (k < 1 \<or> int (length ml) < k)"
  have "length ml \<le> to_size_t (k - 1)"
  proof (cases "k < 1")
    case True
    then have "2 ^ 32 \<le> to_size_t (k - 1)"
      using range assms(2) by (intro to_size_t_negative) simp_all
    then show ?thesis using a by simp
  next
    case False
    then have "to_size_t (k - 1) = nat (k - 1)" using range by (intro to_size_t_id) simp_all
    moreover have "int (length ml) \<le> k - 1" using a False by linarith
    then have "length ml \<le> nat (k - 1)" by linarith
    ultimately show ?thesis by simp
  qed
  then show "calculate_library ml w = Inl OutOfBounds"
    by (simp add: calculate_library_def g vec_at_def)
qed

theorem positions_unchecked_witness:
  "calculate_library example_library (console ''0\<newline>'') = Inl OutOfBounds \<and>
   calculate_library example_library (console ''3\<newline>'') = Inl OutOfBounds \<and>
   calculate_library [] (console ''1\<newline>'') = Inl OutOfBounds \<and>
   deleteFilm [] (console ''1\<newline>'') = Inl OutOfBounds"
proof -
  have a0: "extract_int (cin (console ''0\<newline>'')) =
             (\<lparr>buf = ''\<newline>'', eofbit = False, failbit = False\<rparr>, Some 0)"
    and a1: "extract_int (cin (console ''1\<newline>'')) =
             (\<lparr>buf = ''\<newline>'', eofbit = False, failbit = False\<rparr>, Some 1)"
    and a3: "extract_int (cin (console ''3\<newline>'')) =
             (\<lparr>buf = ''\<newline>'', eofbit = False, failbit = False\<rparr>, Some 3)"
    by (simp_all add: console_def stream_eval)
  have n: "(0::int) \<noteq> INT_MIN" "(1::int) \<noteq> INT_MIN" "(3::int) \<noteq> INT_MIN"
    by (simp_all add: INT_MIN_def)
  show ?thesis
    using positions_unchecked [OF a0 n(1), of example_library]
      positions_unchecked [OF a3 n(3), of example_library]
      positions_unchecked [OF a1 n(2), of "[]"]
    by (simp add: example_library_def)
qed

text \<open>
  DELETE with the position 0 on a library that is not empty makes no element access:
  \<open>pos\<close> is \<open>-1\<close>, the loop counter starts at \<open>2 ^ 32 - 1\<close>, the loop does not run and
  \<open>pop_back\<close> removes the last record.
\<close>

lemma deleteFilm_position_0_removes_last:
  "map_sum id fst (deleteFilm example_library (console ''0\<newline>'')) = Inr [example_library ! 0]"
  by (simp add: deleteFilm_def getFilmIndex_def console_def stream_eval to_unsigned_def
      deleteFilm_loop_done example_library_def pop_back_def saveData_def open_ofstream_def)

section \<open>ADD\<close>




section \<open>Reading back what was written\<close>

lemma takeWhile_stop: "\<not> P c \<Longrightarrow> takeWhile P (xs @ c # r) = takeWhile P xs"
  by (induction xs) auto

lemma dropWhile_stop: "\<not> P c \<Longrightarrow> dropWhile P (xs @ c # r) = dropWhile P xs @ c # r"
  by (induction xs) auto

lemma scan_sign_stop:
  assumes "\<not> number_char c" and "scan_sign t = (neg, s1)"
  shows "scan_sign (t @ c # r) = (neg, s1 @ c # r)"
  using assms by (cases t) (auto simp: scan_sign_def number_char_def split: if_splits)

lemma scan_mantissa_stop:
  assumes "\<not> number_char c" and "scan_mantissa t = (ip, fp, s3)"
  shows "scan_mantissa (t @ c # r) = (ip, fp, s3 @ c # r)"
proof -
  have d: "\<not> isdigit c" and p: "c \<noteq> CHR ''.''" using assms(1) by (auto simp: number_char_def)
  show ?thesis
  proof (cases "dropWhile isdigit t")
    case Nil
    then show ?thesis
      using assms(2) p
      by (simp add: scan_mantissa_def dropWhile_stop [of isdigit c, OF d] takeWhile_stop [of isdigit c, OF d] Nil)
  next
    case (Cons a u)
    then show ?thesis
      using assms(2)
      by (auto simp: scan_mantissa_def dropWhile_stop [of isdigit c, OF d] takeWhile_stop [of isdigit c, OF d] Cons
          split: if_splits)
  qed
qed

lemma scan_exponent_stop:
  assumes "\<not> number_char c" and "scan_exponent b t = (he, en, ep, s4)"
  shows "scan_exponent b (t @ c # r) = (he, en, ep, s4 @ c # r)"
proof -
  have d: "\<not> isdigit c" and e: "c \<noteq> CHR ''e''" "c \<noteq> CHR ''E''"
    using assms(1) by (auto simp: number_char_def)
  show ?thesis
  proof (cases t)
    case Nil
    then show ?thesis using assms(2) e by (simp add: scan_exponent_def)
  next
    case (Cons a u)
    obtain n u1 where u1: "scan_sign u = (n, u1)" by (cases "scan_sign u")
    have "scan_sign (u @ c # r) = (n, u1 @ c # r)" using assms(1) u1 by (rule scan_sign_stop)
    then show ?thesis
      using assms(2) Cons u1
      by (auto simp: scan_exponent_def dropWhile_stop [of isdigit c, OF d] takeWhile_stop [of isdigit c, OF d]
          split: if_splits)
  qed
qed

lemma extract_float_stop:
  assumes "\<not> number_char c" and "extract_float t = (v, s4)"
  shows "extract_float (t @ c # r) = (v, s4 @ c # r)"
proof -
  obtain neg s1 where a: "scan_sign t = (neg, s1)" by (cases "scan_sign t")
  obtain ip fp s3 where b: "scan_mantissa s1 = (ip, fp, s3)" by (cases "scan_mantissa s1")
  obtain he en ep s4' where
    d: "scan_exponent (found_mantissa ip fp) s3 = (he, en, ep, s4')"
    by (cases "scan_exponent (found_mantissa ip fp) s3")
  note a' = scan_sign_stop [OF assms(1) a, of r]
  note b' = scan_mantissa_stop [OF assms(1) b, of r]
  note d' = scan_exponent_stop [OF assms(1) d, of r]
  show ?thesis
    using assms(2) by (simp add: extract_float_def a b d a' b' d')
qed

lemma extract_float_not_space:
  assumes "extract_float (c # r) = (Some y, s)"
  shows "\<not> isspace c"
proof
  assume "isspace c"
  then have c: "c \<noteq> CHR ''-''" "c \<noteq> CHR ''+''" "\<not> isdigit c" "c \<noteq> CHR ''.''"
    by (auto simp: isspace_def isdigit_def)
  have "scan_sign (c # r) = (False, c # r)" using c by (simp add: scan_sign_def)
  moreover have "scan_mantissa (c # r) = ([], [], c # r)" using c by (simp add: scan_mantissa_def)
  ultimately have "fst (extract_float (c # r)) = None"
    by (simp add: extract_float_def found_mantissa_def split: prod.splits)
  then show False using assms by simp
qed

lemma extract_float_Nil: "extract_float [] = (None, [])"
  by (simp add: extract_float_def scan_sign_def scan_mantissa_def scan_exponent_def
      found_mantissa_def)

lemma takeWhile_all_stop:
  "\<forall>x\<in>set xs. P x \<Longrightarrow> \<not> P c \<Longrightarrow> takeWhile P (xs @ c # r) = xs"
  by (induction xs) auto

lemma dropWhile_all_stop:
  "\<forall>x\<in>set xs. P x \<Longrightarrow> \<not> P c \<Longrightarrow> dropWhile P (xs @ c # r) = c # r"
  by (induction xs) auto

lemma newline_not_number_char: "\<not> number_char (CHR 0x0A)"
  by (simp add: number_char_def isdigit_def)

lemma reread_Some:
  assumes "reread x = Some y"
  shows "\<exists>v c t. y = Val v \<and> fmt_g x = c # t \<and> \<not> isspace c \<and>
                 extract_float (fmt_g x) = (Some v, [])"
proof -
  obtain r s where e: "extract_float (fmt_g x) = (r, s)" by (cases "extract_float (fmt_g x)")
  from assms e obtain v where v: "r = Some v" "s = []" "y = Val v"
    by (auto simp: reread_def split: option.splits list.splits)
  have "fmt_g x \<noteq> []" using e v extract_float_Nil by auto
  then obtain c t where ct: "fmt_g x = c # t" by (cases "fmt_g x") auto
  have "\<not> isspace c" using e v ct extract_float_not_space [of c t v "[]"] by simp
  then show ?thesis using e v ct by simp
qed

lemma sentry_skipws_nonspace:
  "good s \<Longrightarrow> buf s = c # t \<Longrightarrow> \<not> isspace c \<Longrightarrow> sentry_skipws s = (s, True)"
  by (simp add: sentry_skipws_def)

lemma read_fin_record:
  assumes "name_ok (mat f)" and "reread (index f) = Some y" and "\<forall>c\<in>set sp. isspace c"
  shows "read_fin \<lparr>buf = sp @ writeFile f @ rest, eofbit = False, failbit = False\<rparr> film =
           (\<lparr>buf = CHR 0x0A # rest, eofbit = False, failbit = False\<rparr>,
            film\<lparr>mat := mat f, index := y\<rparr>)"
proof -
  let ?nl = "CHR 0x0A"
  obtain v c t where v: "y = Val v" "fmt_g (index f) = c # t" "\<not> isspace c"
    "extract_float (fmt_g (index f)) = (Some v, [])"
    using reread_Some [OF assms(2)] by blast
  obtain a n where n: "mat f = a # n" "\<not> isspace a" "?nl \<notin> set (mat f)"
    using assms(1) by (cases "mat f") (auto simp: name_ok_def)
  let ?more = "fmt_g (index f) @ ?nl # rest"
  let ?s0 = "\<lparr>buf = sp @ writeFile f @ rest, eofbit = False, failbit = False\<rparr>"
  let ?s1 = "\<lparr>buf = mat f @ ?nl # ?more, eofbit = False, failbit = False\<rparr>"
  let ?s2 = "\<lparr>buf = ?more, eofbit = False, failbit = False\<rparr>"
  let ?s3 = "\<lparr>buf = ?nl # rest, eofbit = False, failbit = False\<rparr>"
  have w: "sp @ writeFile f @ rest = sp @ a # (n @ ?nl # ?more)"
    by (simp add: writeFile_def n(1))
  have "dropWhile isspace (sp @ a # (n @ ?nl # ?more)) = a # (n @ ?nl # ?more)"
    using assms(3) n(2) by (rule dropWhile_all_stop)
  then have 1: "ws ?s0 = ?s1"
    by (simp add: ws_def sentry_noskip_def good_def w n(1))
  have "takeWhile (\<lambda>c. c \<noteq> ?nl) (mat f @ ?nl # ?more) = mat f"
    and "dropWhile (\<lambda>c. c \<noteq> ?nl) (mat f @ ?nl # ?more) = ?nl # ?more"
  proof -
    have all: "\<forall>x\<in>set (mat f). x \<noteq> ?nl" using n(3) by auto
    show "takeWhile (\<lambda>c. c \<noteq> ?nl) (mat f @ ?nl # ?more) = mat f"
      by (rule takeWhile_all_stop [OF all]) simp
    show "dropWhile (\<lambda>c. c \<noteq> ?nl) (mat f @ ?nl # ?more) = ?nl # ?more"
      by (rule dropWhile_all_stop [OF all]) simp
  qed
  then have 2: "getline ?s1 = (?s2, Some (mat f))"
    by (simp add: getline_def sentry_noskip_def good_def)
  have "sentry_skipws ?s2 = (?s2, True)"
    by (rule sentry_skipws_nonspace [of _ c "t @ ?nl # rest"]) (simp_all add: good_def v)
  moreover have "extract_float ?more = (Some v, [] @ ?nl # rest)"
    using newline_not_number_char v(4) by (rule extract_float_stop)
  ultimately have 3: "extract_double ?s2 = (?s3, Some y)"
    by (simp add: extract_double_def v(1))
  show ?thesis
    by (simp add: read_fin_def 1 2 3 assign_mat_def assign_index_def)
qed

lemma read_fin_only_space:
  assumes "\<forall>c\<in>set sp. isspace c"
  shows "\<not> good (fst (read_fin \<lparr>buf = sp, eofbit = False, failbit = False\<rparr> film))"
proof -
  have d: "dropWhile isspace sp = []" using assms by simp
  have 1: "ws \<lparr>buf = sp, eofbit = False, failbit = False\<rparr> =
             \<lparr>buf = [], eofbit = True, failbit = False\<rparr>"
    by (simp add: ws_def sentry_noskip_def good_def d)
  show ?thesis
    by (simp add: read_fin_def 1 getline_def extract_double_def sentry_noskip_def
        sentry_skipws_def good_def)
qed

lemma loadData_loop_saved:
  assumes "list_all canonical L" and "\<forall>c\<in>set sp. isspace c"
  shows "loadData_loop \<lparr>buf = sp @ saveData_loop L, eofbit = False, failbit = False\<rparr> film acc =
           acc @ map (\<lambda>f. \<lparr>mat = mat f, spectralRange = spectralRange film,
                            index = the (reread (index f)),
                            numberOfMaxima = numberOfMaxima film\<rparr>) L"
  using assms
proof (induction L arbitrary: sp film acc)
  case Nil
  let ?s = "\<lparr>buf = sp, eofbit = False, failbit = False\<rparr>"
  obtain fin' film' where r: "read_fin ?s film = (fin', film')" by (cases "read_fin ?s film")
  have "\<not> good fin'" using read_fin_only_space [OF Nil(2), of film] r by simp
  moreover have "good ?s" by (simp add: good_def)
  ultimately show ?case
    by (simp add: loadData_loop_good r loadData_loop_not_good)
next
  case (Cons f L)
  from Cons.prems(1) have cf: "canonical f" and L: "list_all canonical L" by simp_all
  from cf obtain y where f: "name_ok (mat f)" "reread (index f) = Some y"
    by (auto simp: canonical_def split: option.splits)
  let ?s = "\<lparr>buf = sp @ saveData_loop (f # L), eofbit = False, failbit = False\<rparr>"
  let ?s' = "\<lparr>buf = [CHR 0x0A] @ saveData_loop L, eofbit = False, failbit = False\<rparr>"
  let ?film = "film\<lparr>mat := mat f, index := y\<rparr>"
  have r: "read_fin ?s film = (?s', ?film)"
    using read_fin_record [OF f Cons.prems(2), of "saveData_loop L" film] by simp
  have g: "good ?s" "good ?s'" by (simp_all add: good_def)
  have sp': "\<forall>c\<in>set [CHR 0x0A]. isspace c" by (simp add: isspace_def)
  have "loadData_loop ?s film acc =
          (case read_fin ?s film of (fin', film') \<Rightarrow>
             loadData_loop fin' film' (if good fin' then acc @ [film'] else acc))"
    by (rule loadData_loop_good [OF g(1)])
  also have "\<dots> = loadData_loop ?s' ?film (acc @ [?film])"
    by (simp only: r prod.case g(2) if_True)
  also have "\<dots> = (acc @ [?film]) @
      map (\<lambda>f. \<lparr>mat = mat f, spectralRange = spectralRange ?film,
                 index = the (reread (index f)), numberOfMaxima = numberOfMaxima ?film\<rparr>) L"
    by (rule Cons.IH [OF L sp'])
  finally show ?case by (simp add: f(2))
qed







text \<open>Leading white space and blank lines are not kept either.\<close>

lemma save_load_drops_white_space:
  "save_load ''films.txt'' (session [] ''  SiO2\<newline>\<newline>1.460\<newline>'') =
     Inr (session [] ''SiO2\<newline>1.46\<newline>'')"
proof -
  have l: "loadData [] ''films.txt'' (session [] ''  SiO2\<newline>\<newline>1.460\<newline>'') =
             Inr ([\<lparr>mat = ''SiO2'', spectralRange = Val 0, index = Val 1.46,
                    numberOfMaxima = Val 0\<rparr>],
                  session [] ''  SiO2\<newline>\<newline>1.460\<newline>'')"
    by (simp add: session_def load_eval stream_eval)
  have s: "saveData [\<lparr>mat = ''SiO2'', spectralRange = Val 0, index = Val 1.46,
                       numberOfMaxima = Val 0\<rparr>]
             ''films.txt'' (session [] ''  SiO2\<newline>\<newline>1.460\<newline>'') =
           Inr (session [] ''SiO2\<newline>1.46\<newline>'')"
    by (simp add: saveData_def session_def open_ofstream_def writeFile_def fmt_eval)
  show ?thesis
    by (simp only: save_load_def l s sum.case prod.case)
qed

section \<open>Loading\<close>

lemma loadData_open_failure:
  "open_ifstream (files w fileName) = None \<Longrightarrow>
   loadData ml fileName w =
     Inl (Exit 1 (put [Text ''File '', Text fileName, Text '' failed to open.\<newline>''] w))"
  by (simp add: loadData_def)

lemma loadData_saved:
  assumes "list_all canonical L" and "files w path = File (saveData_loop L)"
  shows "loadData [] path w =
           Inr (map (\<lambda>f. \<lparr>mat = mat f, spectralRange = Val 0,
                             index = the (reread (index f)), numberOfMaxima = Val 0\<rparr>) L, w)"
proof -
  have "loadData_loop \<lparr>buf = [] @ saveData_loop L, eofbit = False, failbit = False\<rparr>
          Thin_film_default [] =
        [] @ map (\<lambda>f. \<lparr>mat = mat f, spectralRange = spectralRange Thin_film_default,
                         index = the (reread (index f)),
                         numberOfMaxima = numberOfMaxima Thin_film_default\<rparr>) L"
    by (rule loadData_loop_saved [OF assms(1)]) simp
  then show ?thesis
    using assms(2)
    by (simp add: loadData_def open_ifstream_def open_istream_def Thin_film_default_def)
qed

lemma loadData_example:
  "loadData [] ''films.txt'' (session input ''SiO2\<newline>1.46\<newline>Si3N4\<newline>2.05\<newline>'') =
     Inr (example_library, session input ''SiO2\<newline>1.46\<newline>Si3N4\<newline>2.05\<newline>'')"
  by (simp add: session_def load_eval stream_eval example_library_def)

lemma loadData_drops_partial_pair:
  "loadData [] ''films.txt'' (session input ''SiO2\<newline>1.46\<newline>Si3N4\<newline>'') =
     Inr ([example_library ! 0], session input ''SiO2\<newline>1.46\<newline>Si3N4\<newline>'')"
  by (simp add: session_def load_eval stream_eval example_library_def)

text \<open>
  C9, as the code has it. A library file whose last index line is not ended by a
  newline loses its last record: the extraction of the index runs into the end of the
  file and sets \<open>eofbit\<close>, and \<open>loadData\<close> pushes a record only while \<open>fin.good()\<close>. The
  file \<open>SiO2 / 1.46 / Si3N4 / 2.05\<close> loads as the one record of SiO2.
\<close>

theorem loadData_drops_unterminated_record:
  "loadData [] ''films.txt'' (session [] ''SiO2\<newline>1.46\<newline>Si3N4\<newline>2.05'') =
     Inr ([\<lparr>mat = ''SiO2'', spectralRange = Val 0, index = Val 1.46, numberOfMaxima = Val 0\<rparr>],
          session [] ''SiO2\<newline>1.46\<newline>Si3N4\<newline>2.05'')"
  by (simp add: session_def load_eval stream_eval)

section \<open>Measurement records and the library file\<close>

lemmas session_eval = main_def calculateThickness_def calculate_unknown_def calculate_library_def
  read_cin_def print_def writeMeasResultFile_def saveData_def open_ofstream_def
  open_ofstream_app_def deleteFilm_def deleteFilm_loop_step deleteFilm_loop_done pop_back_def
  getFilmIndex_def listFilms_eval menu_def table_header_def to_unsigned_def to_size_t_def
  vec_at_def writeFile_def CAL_THICKNESS_def MATERIAL_LIST_def ADD_MATERIAL_def
  DEL_MATERIAL_def EXIT_def setspectralRange_def setnumberOfMaxima_def getThickness_def

text \<open>
  C2, as the code has it. CALCULATE on a film entered by hand (X, index 1.5), with every
  offer to save declined, leaves the record in the in-memory list; the DELETE of
  position 1 that follows rewrites \<open>films.txt\<close> from that list, X included.
\<close>

theorem measurement_record_reaches_library_file:
  "map_option (map_sum id (\<lambda>w. files w ''films.txt''))
     (main (Suc (Suc (Suc 0)))
        (session ''1\<newline>n\<newline>X\<newline>1.5\<newline>50\<newline>3\<newline>n\<newline>n\<newline>n\<newline>4\<newline>1\<newline>0\<newline>''
           ''SiO2\<newline>1.46\<newline>Si3N4\<newline>2.05\<newline>'')) =
   Some (Inr (File ''Si3N4\<newline>2.05\<newline>X\<newline>1.5\<newline>''))"
  by (simp add: session_def session_eval load_eval stream_eval fmt_eval)

text \<open>
  CALCULATE from the library pushes a copy of the chosen record: after it, the DELETE of
  position 1 writes Si3N4 twice.
\<close>

lemma library_record_duplicated:
  "map_option (map_sum id (\<lambda>w. files w ''films.txt''))
     (main (Suc (Suc (Suc 0)))
        (session ''1\<newline>y\<newline>2\<newline>50\<newline>3\<newline>n\<newline>n\<newline>4\<newline>1\<newline>0\<newline>''
           ''SiO2\<newline>1.46\<newline>Si3N4\<newline>2.05\<newline>'')) =
   Some (Inr (File ''Si3N4\<newline>2.05\<newline>Si3N4\<newline>2.05\<newline>''))"
  by (simp add: session_def session_eval load_eval stream_eval fmt_eval)

end
